theory Spec2Isabelle
  imports Complex_Main
begin

section \<open>Arrays and element types\<close>

text \<open>
  The image data of pvinspect are two-dimensional numpy arrays. An array is modelled
  by its element type and its rows; the shape is read off the rows, so an array without
  rows has shape (0, 0) whatever its width. Pixel values are
  exact rationals: integer pixels are whole numbers, and a floating-point pixel is the
  rational it denotes (rounding of float arithmetic, NaN and infinities are outside the
  model). The element types are those an image file decodes to and the two float types
  the code tests for.
\<close>

datatype dtype = DBool | UInt8 | UInt16 | Int16 | Float32 | Float64

record ndarray =
  dtype :: dtype
  vals :: "rat list list"

definition shape :: "ndarray \<Rightarrow> nat \<times> nat" where
  "shape a = (length (vals a), (case vals a of [] \<Rightarrow> 0 | r # _ \<Rightarrow> length r))"

text \<open>A well-formed array is rectangular: every row has the width of the shape.\<close>

definition rect :: "ndarray \<Rightarrow> bool" where
  "rect a = list_all (\<lambda>r. length r = snd (shape a)) (vals a)"

definition is_float :: "dtype \<Rightarrow> bool" where
  "is_float t = (t = Float32 \<or> t = Float64)"

section \<open>Errors\<close>

text \<open>
  Every way the Python code stops is a value: the exceptions that reach the caller, and
  \<open>Fatal\<close> for the pair \<^verbatim>\<open>logging.error(msg); exit()\<close>, carrying the logged message.
\<close>

datatype error =
    Fatal string
  | RuntimeError string
  | TypeError string
  | ValueError string
  | IndexError string
  | AttributeError string

text \<open>
  Modelled from the spec: \<^verbatim>\<open>pvinspect.common._ipy_exit.exit\<close> is imported by image.py and
  is not among the sources. The specification says of the errors that call it that they
  are "logged, then the process is terminated immediately": nothing after the call runs.
\<close>

definition fatal :: "string \<Rightarrow> error + 'a" where
  "fatal msg = Inl (Fatal msg)"

text \<open>A Python list comprehension or loop over fallible calls: the first error ends it.\<close>

fun map_results :: "('a \<Rightarrow> error + 'b) \<Rightarrow> 'a list \<Rightarrow> error + 'b list" where
  "map_results f [] = Inr []"
| "map_results f (x # xs) =
     (case f x of
        Inl e \<Rightarrow> Inl e
      | Inr y \<Rightarrow> (case map_results f xs of Inl e \<Rightarrow> Inl e | Inr ys \<Rightarrow> Inr (y # ys)))"

section \<open>The conversions of scikit-image\<close>

text \<open>
  \<^verbatim>\<open>img_as_uint\<close> and \<^verbatim>\<open>img_as_float\<close> belong to scikit-image, not to the repository.
  They are modelled on the library's documented conversion: \<^verbatim>\<open>img_as_uint\<close> returns
  16-bit unsigned data, leaves 16-bit unsigned input as it is, scales unsigned and boolean
  input up to the range 0..65535, clips the negative values of signed input to 0 and
  refuses float input outside [-1, 1]; \<^verbatim>\<open>img_as_float\<close> leaves float input as it is
  and scales integer input into a 64-bit float array. The float product is rounded
  exactly, not in float arithmetic, and empty float data, on which the library raises, is
  not told apart.
\<close>

definition rint :: "rat \<Rightarrow> int" where
  "rint x = (let f = \<lfloor>x\<rfloor>; d = x - of_int f
             in if d < 1 / 2 then f else if 1 / 2 < d then f + 1
                else if even f then f else f + 1)"

definition uint_of :: "dtype \<Rightarrow> rat \<Rightarrow> rat" where
  "uint_of t v =
     (case t of
        UInt16 \<Rightarrow> v
      | UInt8 \<Rightarrow> v * 257
      | DBool \<Rightarrow> v * 65535
      | Int16 \<Rightarrow> of_int (max 0 ((\<lfloor>v\<rfloor> * 32769) div 16384))
      | _ \<Rightarrow> of_int (max 0 (min 65535 (rint (v * 65535)))))"

definition img_as_uint :: "ndarray \<Rightarrow> error + ndarray" where
  "img_as_uint a =
     (if dtype a = UInt16 then Inr a
      else if is_float (dtype a) \<and> list_ex (\<lambda>v. v < - 1 \<or> 1 < v) (concat (vals a))
        then Inl (ValueError ''Images of type float must be between -1 and 1.'')
      else Inr \<lparr>dtype = UInt16, vals = map (map (uint_of (dtype a))) (vals a)\<rparr>)"

definition float_of :: "dtype \<Rightarrow> rat \<Rightarrow> rat" where
  "float_of t v =
     (case t of
        UInt16 \<Rightarrow> v / 65535
      | UInt8 \<Rightarrow> v / 255
      | Int16 \<Rightarrow> (v + 1 / 2) * 2 / 65535
      | _ \<Rightarrow> v)"

definition img_as_float :: "ndarray \<Rightarrow> error + ndarray" where
  "img_as_float a =
     (if is_float (dtype a) then Inr a
      else Inr \<lparr>dtype = Float64, vals = map (map (float_of (dtype a))) (vals a)\<rparr>)"

section \<open>Images\<close>

text \<open>
  The four image classes of image.py, each with the attributes its constructor stores.
  \<^verbatim>\<open>path\<close> is the file name; \<^verbatim>\<open>modality\<close> is \<open>Some 0\<close> (EL), \<open>Some 1\<close> (PL) or
  \<open>None\<close>; the transform is an opaque handle that the code only stores.
\<close>

type_synonym path = string
type_synonym transform = nat

datatype image =
    Image ndarray path "int option"
  | CellImage ndarray "int option" path int int
  | ModuleImage ndarray "int option" path "int option" "int option" "transform option"
  | PartialModuleImage ndarray "int option" path "int option" "int option"
      "int option" "int option" "transform option"

fun data :: "image \<Rightarrow> ndarray" where
  "data (Image d p m) = d"
| "data (CellImage d m p r c) = d"
| "data (ModuleImage d m p cs rs t) = d"
| "data (PartialModuleImage d m p cs rs fc fr t) = d"

fun path_of :: "image \<Rightarrow> path" where
  "path_of (Image d p m) = p"
| "path_of (CellImage d m p r c) = p"
| "path_of (ModuleImage d m p cs rs t) = p"
| "path_of (PartialModuleImage d m p cs rs fc fr t) = p"

fun modality :: "image \<Rightarrow> int option" where
  "modality (Image d p m) = m"
| "modality (CellImage d m p r c) = m"
| "modality (ModuleImage d m p cs rs t) = m"
| "modality (PartialModuleImage d m p cs rs fc fr t) = m"

definition img_dtype :: "image \<Rightarrow> dtype" where
  "img_dtype img = dtype (data img)"

definition img_shape :: "image \<Rightarrow> nat \<times> nat" where
  "img_shape img = shape (data img)"

text \<open>\<^verbatim>\<open>cols\<close> and \<^verbatim>\<open>rows\<close> are properties of module images only.\<close>

fun cols :: "image \<Rightarrow> error + int option" where
  "cols (ModuleImage d m p cs rs t) = Inr cs"
| "cols (PartialModuleImage d m p cs rs fc fr t) = Inr cs"
| "cols _ = Inl (AttributeError ''cols'')"

fun rows :: "image \<Rightarrow> error + int option" where
  "rows (ModuleImage d m p cs rs t) = Inr rs"
| "rows (PartialModuleImage d m p cs rs fc fr t) = Inr rs"
| "rows _ = Inl (AttributeError ''rows'')"

subsection \<open>Constructors\<close>

text \<open>
  \<^verbatim>\<open>Image.__init__\<close>: data that is neither float32 nor float64 goes through
  \<^verbatim>\<open>img_as_uint\<close>. The subclasses call it through \<^verbatim>\<open>super().__init__\<close>.
\<close>

definition common_dtype :: "ndarray \<Rightarrow> error + ndarray" where
  "common_dtype d =
     (if dtype d \<noteq> Float32 \<and> dtype d \<noteq> Float64 then img_as_uint d else Inr d)"

definition Image_init :: "ndarray \<Rightarrow> path \<Rightarrow> int option \<Rightarrow> error + image" where
  "Image_init d p m =
     (case common_dtype d of Inl e \<Rightarrow> Inl e | Inr d' \<Rightarrow> Inr (Image d' p m))"

definition CellImage_init ::
  "ndarray \<Rightarrow> int option \<Rightarrow> path \<Rightarrow> int \<Rightarrow> int \<Rightarrow> error + image" where
  "CellImage_init d m p r c =
     (case common_dtype d of Inl e \<Rightarrow> Inl e | Inr d' \<Rightarrow> Inr (CellImage d' m p r c))"

definition ModuleImage_init ::
  "ndarray \<Rightarrow> int option \<Rightarrow> path \<Rightarrow> int option \<Rightarrow> int option \<Rightarrow> transform option
     \<Rightarrow> error + image" where
  "ModuleImage_init d m p cs rs t =
     (case common_dtype d of Inl e \<Rightarrow> Inl e | Inr d' \<Rightarrow> Inr (ModuleImage d' m p cs rs t))"

definition PartialModuleImage_init ::
  "ndarray \<Rightarrow> int option \<Rightarrow> path \<Rightarrow> int option \<Rightarrow> int option \<Rightarrow> int option \<Rightarrow> int option
     \<Rightarrow> transform option \<Rightarrow> error + image" where
  "PartialModuleImage_init d m p cs rs fc fr t =
     (case common_dtype d of
        Inl e \<Rightarrow> Inl e
      | Inr d' \<Rightarrow> Inr (PartialModuleImage d' m p cs rs fc fr t))"

text \<open>
  \<^verbatim>\<open>type(self).from_other(self, data = d)\<close>: the constructor of the image's own class,
  called with the new data and every other argument read back from the image.
\<close>

fun from_other_data :: "image \<Rightarrow> ndarray \<Rightarrow> error + image" where
  "from_other_data (Image d0 p m) d = Image_init d p m"
| "from_other_data (CellImage d0 m p r c) d = CellImage_init d m p r c"
| "from_other_data (ModuleImage d0 m p cs rs t) d = ModuleImage_init d m p cs rs t"
| "from_other_data (PartialModuleImage d0 m p cs rs fc fr t) d =
     PartialModuleImage_init d m p cs rs fc fr t"

section \<open>Sequences\<close>

datatype seq_class = ImageSequenceC | CellImageSequenceC | ModuleImageSequenceC

record imgseq =
  seq_class :: seq_class
  images :: "image list"
  same_camera :: bool
  allow_different_dtypes :: bool

text \<open>The messages logged before a sequence constructor exits.\<close>

definition msg_mixed_dtypes :: string where
  \<open>msg_mixed_dtypes = ''Cannot create sequence from mixed dtypes. Consider using the "allow_different_dtypes" argument, when reading images.''\<close>

definition msg_mixed_shapes :: string where
  \<open>msg_mixed_shapes = ''Cannot create sequence from mixed shapes. Consider using the "same_camera" argument, when reading images.''\<close>

definition msg_mixed_modalities :: string where
  "msg_mixed_modalities = ''Cannot create a sequence from mixed modalities.''"

definition msg_empty :: string where
  "msg_empty = ''Creation of an empty sequence is not supported''"

definition msg_geometry :: string where
  "msg_geometry = ''Cannot create sequence from different module configurations''"

text \<open>
  The loop of \<^verbatim>\<open>ImageSequence.__init__\<close> over the images: per image the dtype, then
  the shape, then the modality is compared with the first image's.
\<close>

fun check_images ::
  "dtype \<Rightarrow> nat \<times> nat \<Rightarrow> int option \<Rightarrow> bool \<Rightarrow> bool \<Rightarrow> image list \<Rightarrow> error + unit" where
  "check_images dt sh mo sc allow [] = Inr ()"
| "check_images dt sh mo sc allow (img # rest) =
     (if img_dtype img \<noteq> dt \<and> \<not> allow then fatal msg_mixed_dtypes
      else if img_shape img \<noteq> sh \<and> sc then fatal msg_mixed_shapes
      else if modality img \<noteq> mo then fatal msg_mixed_modalities
      else check_images dt sh mo sc allow rest)"

definition base_init :: "seq_class \<Rightarrow> image list \<Rightarrow> bool \<Rightarrow> bool \<Rightarrow> error + imgseq" where
  "base_init k imgs sc allow =
     (case imgs of
        [] \<Rightarrow> fatal msg_empty
      | i0 # _ \<Rightarrow>
          (case check_images (img_dtype i0) (img_shape i0) (modality i0) sc allow imgs of
             Inl e \<Rightarrow> Inl e
           | Inr _ \<Rightarrow>
               Inr \<lparr>seq_class = k, images = imgs, same_camera = sc,
                    allow_different_dtypes = allow\<rparr>))"

definition ImageSequence_init :: "image list \<Rightarrow> bool \<Rightarrow> bool \<Rightarrow> error + imgseq" where
  "ImageSequence_init imgs sc allow = base_init ImageSequenceC imgs sc allow"

text \<open>
  \<^verbatim>\<open>CellImageSequence.__init__(images, copy)\<close> calls
  \<^verbatim>\<open>super().__init__(images, False, copy)\<close>.
\<close>

definition CellImageSequence_init :: "image list \<Rightarrow> bool \<Rightarrow> error + imgseq" where
  "CellImageSequence_init imgs copy = base_init CellImageSequenceC imgs False copy"

text \<open>
  \<^verbatim>\<open>ModuleImageSequence.__init__\<close> reads \<^verbatim>\<open>images[0].cols\<close> and \<^verbatim>\<open>images[0].rows\<close>,
  compares every image's geometry with them, and only then calls the base constructor.
\<close>

fun check_geometry :: "int option \<Rightarrow> int option \<Rightarrow> image list \<Rightarrow> error + unit" where
  "check_geometry cs rs [] = Inr ()"
| "check_geometry cs rs (img # rest) =
     (case cols img of
        Inl e \<Rightarrow> Inl e
      | Inr c \<Rightarrow>
          if c \<noteq> cs then fatal msg_geometry
          else (case rows img of
                  Inl e \<Rightarrow> Inl e
                | Inr r \<Rightarrow>
                    if r \<noteq> rs then fatal msg_geometry
                    else check_geometry cs rs rest))"

definition ModuleImageSequence_init :: "image list \<Rightarrow> bool \<Rightarrow> bool \<Rightarrow> error + imgseq" where
  "ModuleImageSequence_init imgs sc allow =
     (case imgs of
        [] \<Rightarrow> Inl (IndexError ''list index out of range'')
      | i0 # _ \<Rightarrow>
          (case cols i0 of
             Inl e \<Rightarrow> Inl e
           | Inr cs \<Rightarrow>
               (case rows i0 of
                  Inl e \<Rightarrow> Inl e
                | Inr rs \<Rightarrow>
                    (case check_geometry cs rs imgs of
                       Inl e \<Rightarrow> Inl e
                     | Inr _ \<Rightarrow> base_init ModuleImageSequenceC imgs sc allow))))"

text \<open>
  The properties \<^verbatim>\<open>dtype\<close> and \<^verbatim>\<open>shape\<close> of a sequence; \<open>None\<close> is Python's None.
  The flag is tested first, and \<^verbatim>\<open>self.images[0]\<close> is read only when a value is
  returned.
\<close>

definition seq_dtype :: "imgseq \<Rightarrow> error + dtype option" where
  "seq_dtype s =
     (if \<not> allow_different_dtypes s
        then (case images s of
                [] \<Rightarrow> Inl (IndexError ''list index out of range'')
              | i0 # _ \<Rightarrow> Inr (Some (img_dtype i0)))
      else Inr None)"

definition seq_shape :: "imgseq \<Rightarrow> error + (nat \<times> nat) option" where
  "seq_shape s =
     (if same_camera s
        then (case images s of
                [] \<Rightarrow> Inl (IndexError ''list index out of range'')
              | i0 # _ \<Rightarrow> Inr (Some (img_shape i0)))
      else Inr None)"

section \<open>Arithmetic\<close>

text \<open>
  \<^verbatim>\<open>Image.__add__\<close>, \<^verbatim>\<open>__sub__\<close>, \<^verbatim>\<open>__mul__\<close>, \<^verbatim>\<open>__floordiv__\<close>, \<^verbatim>\<open>__mod__\<close> and
  \<^verbatim>\<open>__pow__\<close> have one body, up to the numpy operator applied to the two arrays; that
  operator is the parameter \<open>np_op\<close> (it raises where numpy does, for instance on shapes
  that do not fit). \<^verbatim>\<open>__truediv__\<close> has a test of its own.
\<close>

definition Image_binop ::
  "(ndarray \<Rightarrow> ndarray \<Rightarrow> error + ndarray) \<Rightarrow> image \<Rightarrow> image \<Rightarrow> error + image" where
  "Image_binop np_op self other =
     (if img_dtype self \<noteq> img_dtype other
        then Inl (RuntimeError ''Images must have the same datatype'')
      else (case np_op (data self) (data other) of
              Inl e \<Rightarrow> Inl e
            | Inr d \<Rightarrow> from_other_data self d))"

definition Image_truediv ::
  "(ndarray \<Rightarrow> ndarray \<Rightarrow> error + ndarray) \<Rightarrow> image \<Rightarrow> image \<Rightarrow> error + image" where
  "Image_truediv np_div self other =
     (if \<not> is_float (img_dtype self) \<or> \<not> is_float (img_dtype other)
        then Inl (RuntimeError ''Images must be of type float'')
      else (case np_div (data self) (data other) of
              Inl e \<Rightarrow> Inl e
            | Inr d \<Rightarrow> from_other_data self d))"

text \<open>
  numpy's \<^verbatim>\<open>+\<close> on two arrays of one shape and one element type, as the image
  operators call it: elementwise, and modulo \<open>2 ^ 16\<close> on 16-bit unsigned data.
  Broadcasting of arrays of different shapes is not modelled: they are refused.
\<close>

definition np_add :: "ndarray \<Rightarrow> ndarray \<Rightarrow> error + ndarray" where
  "np_add a b =
     (if shape a \<noteq> shape b
        then Inl (ValueError ''operands could not be broadcast together'')
      else Inr \<lparr>dtype = dtype a,
                vals = map2 (map2 (\<lambda>x y. if dtype a = UInt16
                                         then of_int (\<lfloor>x + y\<rfloor> mod 65536) else x + y))
                         (vals a) (vals b)\<rparr>)"

text \<open>
  \<^verbatim>\<open>type(self).from_other(self, images = imgs)\<close> on a sequence: the constructor of the
  sequence's class, with the other arguments read from the attributes named after the
  constructor's parameters. \<^verbatim>\<open>CellImageSequence.__init__\<close> has the parameter \<^verbatim>\<open>copy\<close>
  and stores no \<^verbatim>\<open>_copy\<close>.
\<close>

definition seq_from_other_images :: "imgseq \<Rightarrow> image list \<Rightarrow> error + imgseq" where
  "seq_from_other_images s imgs =
     (case seq_class s of
        ImageSequenceC \<Rightarrow> ImageSequence_init imgs (same_camera s) (allow_different_dtypes s)
      | ModuleImageSequenceC \<Rightarrow>
          ModuleImageSequence_init imgs (same_camera s) (allow_different_dtypes s)
      | CellImageSequenceC \<Rightarrow> Inl (AttributeError ''_copy''))"

text \<open>
  The seven operators of \<^verbatim>\<open>ImageSequence\<close> have one body, up to the image operator:
  \<^verbatim>\<open>res = [x op y for x, y in zip(self.images, other.images)]\<close>, then
  \<^verbatim>\<open>from_other(self, images = res)\<close>.
\<close>

definition ImageSequence_binop ::
  "(image \<Rightarrow> image \<Rightarrow> error + image) \<Rightarrow> imgseq \<Rightarrow> imgseq \<Rightarrow> error + imgseq" where
  "ImageSequence_binop img_op self other =
     (case map_results (\<lambda>(x, y). img_op x y) (zip (images self) (images other)) of
        Inl e \<Rightarrow> Inl e
      | Inr res \<Rightarrow> seq_from_other_images self res)"

section \<open>Conversion and the grid of a module\<close>

text \<open>
  \<^verbatim>\<open>Image.as_type(dtype)\<close>: a float target goes through \<^verbatim>\<open>img_as_float\<close>, any other
  through \<^verbatim>\<open>img_as_uint\<close>; the result is rebuilt by the constructor of the image's class.
\<close>

definition Image_as_type :: "image \<Rightarrow> dtype \<Rightarrow> error + image" where
  "Image_as_type self t =
     (if t = Float32 \<or> t = Float64
        then (case img_as_float (data self) of
                Inl e \<Rightarrow> Inl e
              | Inr d \<Rightarrow> from_other_data self d)
      else (case img_as_uint (data self) of
              Inl e \<Rightarrow> Inl e
            | Inr d \<Rightarrow> from_other_data self d))"

text \<open>
  \<^verbatim>\<open>np.mgrid[0:n0:1, 0:n1:1]\<close>: two arrays of shape \<open>(n0, n1)\<close>, the first holding the
  row index and the second the column index of each position; numpy refuses a negative
  extent. \<^verbatim>\<open>flatten\<close> reads an array row by row, and \<^verbatim>\<open>np.stack(..., axis=1)\<close> of two
  flat arrays pairs their entries, so the \<open>(N, 2)\<close> array is a list of \<open>N\<close> pairs.
\<close>

definition mgrid :: "int \<Rightarrow> int \<Rightarrow> error + int list list \<times> int list list" where
  "mgrid n0 n1 =
     (if n0 < 0 \<or> n1 < 0 then Inl (ValueError ''negative dimensions are not allowed'')
      else Inr (map (\<lambda>i. map (\<lambda>j. i) [0..n1 - 1]) [0..n0 - 1],
                map (\<lambda>i. map (\<lambda>j. j) [0..n1 - 1]) [0..n0 - 1]))"

definition flatten :: "'a list list \<Rightarrow> 'a list" where
  "flatten a = concat a"

definition grid_of :: "int option \<Rightarrow> int option \<Rightarrow> error + (int \<times> int) list" where
  "grid_of cs rs =
     (case cs of
        None \<Rightarrow> fatal ''Module geometry is not initialized''
      | Some c \<Rightarrow>
          (case rs of
             None \<Rightarrow> fatal ''Module geometry is not initialized''
           | Some r \<Rightarrow>
               (case mgrid (c + 1) (r + 1) of
                  Inl e \<Rightarrow> Inl e
                | Inr (x, y) \<Rightarrow> Inr (zip (flatten x) (flatten y)))))"

text \<open>\<^verbatim>\<open>grid\<close> is a method of \<^verbatim>\<open>ModuleImage\<close>, inherited by \<^verbatim>\<open>PartialModuleImage\<close>.\<close>

fun grid :: "image \<Rightarrow> error + (int \<times> int) list" where
  "grid (ModuleImage d m p cs rs t) = grid_of cs rs"
| "grid (PartialModuleImage d m p cs rs fc fr t) = grid_of cs rs"
| "grid _ = Inl (AttributeError ''grid'')"

section \<open>The sequence adapter\<close>

text \<open>
  What a function decorated with \<^verbatim>\<open>_sequence\<close> is called with as its first argument,
  and what it returns: an image, a sequence, a tuple, or some other object.
\<close>

datatype first_arg = Single image | Sequence imgseq

datatype pyval = VImage image | VSeq imgseq | VTuple "pyval list" | VOther nat

text \<open>
  The unwrapping of \<^verbatim>\<open>wrapper_sequence\<close>: for a tuple whose first member is a sequence
  the code assigns to \<^verbatim>\<open>res[0]\<close>, which Python refuses on a tuple; for a sequence it
  returns \<^verbatim>\<open>res.images[0]\<close>; anything else is returned as it is.
\<close>

definition unwrap_result :: "pyval \<Rightarrow> error + pyval" where
  "unwrap_result res =
     (case res of
        VTuple [] \<Rightarrow> Inl (IndexError ''tuple index out of range'')
      | VTuple (VSeq s # rest) \<Rightarrow>
          Inl (TypeError ''tuple object does not support item assignment'')
      | VSeq s \<Rightarrow>
          (case images s of
             [] \<Rightarrow> Inl (IndexError ''list index out of range'')
           | i # _ \<Rightarrow> Inr (VImage i))
      | _ \<Rightarrow> Inr res)"

fun is_exactly_ModuleImage :: "image \<Rightarrow> bool" where
  "is_exactly_ModuleImage (ModuleImage d m p cs rs t) = True"
| "is_exactly_ModuleImage _ = False"

text \<open>
  \<^verbatim>\<open>wrapper_sequence\<close>, for the decorated function \<open>func\<close> (its remaining arguments
  fixed) and the decorator's flag \<^verbatim>\<open>disable_unwrap\<close>.
\<close>

definition wrapper_sequence ::
  "bool \<Rightarrow> (imgseq \<Rightarrow> error + pyval) \<Rightarrow> first_arg \<Rightarrow> error + pyval" where
  "wrapper_sequence disable_unwrap func a0 =
     (case a0 of
        Sequence s \<Rightarrow> func s
      | Single img \<Rightarrow>
          (case (if is_exactly_ModuleImage img then ModuleImageSequence_init [img] False False
                 else ImageSequence_init [img] False False) of
             Inl e \<Rightarrow> Inl e
           | Inr s \<Rightarrow>
               (case func s of
                  Inl e \<Rightarrow> Inl e
                | Inr res \<Rightarrow> if \<not> disable_unwrap then unwrap_result res else Inr res)))"

section \<open>The bulk reader\<close>

text \<open>
  The numpy operations of the heterogeneity resolution. \<^verbatim>\<open>a.min()\<close> and
  \<^verbatim>\<open>np.max(shapes, axis=0)\<close> raise on nothing to reduce. \<^verbatim>\<open>a.astype(np.float64)\<close>
  keeps every value of the element types modelled. \<^verbatim>\<open>tgt[:r, :c] = src\<close>, with
  \<open>(r, c)\<close> the shape of \<open>src\<close>, overwrites the first \<open>c\<close> entries of the first \<open>r\<close>
  rows; numpy refuses it when \<open>src\<close> does not fit into the slice.
\<close>

definition np_min :: "ndarray \<Rightarrow> error + rat" where
  "np_min a =
     (case concat (vals a) of
        [] \<Rightarrow> Inl (ValueError ''zero-size array to reduction operation minimum which has no identity'')
      | v # vs \<Rightarrow> Inr (fold min vs v))"

definition np_max_axis0 :: "(nat \<times> nat) list \<Rightarrow> error + nat \<times> nat" where
  "np_max_axis0 shapes =
     (case shapes of
        [] \<Rightarrow> Inl (ValueError ''zero-size array to reduction operation maximum which has no identity'')
      | s # ss \<Rightarrow> Inr (fold (\<lambda>(a, b) (x, y). (max a x, max b y)) ss s))"

definition np_full :: "nat \<times> nat \<Rightarrow> rat \<Rightarrow> dtype \<Rightarrow> ndarray" where
  "np_full sh v t = \<lparr>dtype = t, vals = replicate (fst sh) (replicate (snd sh) v)\<rparr>"

definition astype_float64 :: "ndarray \<Rightarrow> ndarray" where
  "astype_float64 a = a\<lparr>dtype := Float64\<rparr>"

definition set_topleft :: "ndarray \<Rightarrow> ndarray \<Rightarrow> error + ndarray" where
  "set_topleft tgt src =
     (let (r, c) = shape src; (R, C) = shape tgt
      in if r \<le> R \<and> c \<le> C
           then Inr (tgt\<lparr>vals := map2 (\<lambda>s t. s @ drop c t) (vals src) (take r (vals tgt))
                                  @ drop r (vals tgt)\<rparr>)
         else Inl (ValueError ''could not broadcast input array''))"

text \<open>
  \<^verbatim>\<open>_read_module_image\<close>. Decoding the file is the codec's work: the function is given
  the path together with the array \<^verbatim>\<open>io.imread\<close> returns for it (byte order is not part
  of the element type here, so the big-endian case needs no step).
\<close>

definition priv_read_module_image ::
  "path \<times> ndarray \<Rightarrow> int option \<Rightarrow> bool \<Rightarrow> int option \<Rightarrow> int option \<Rightarrow> error + image" where
  "priv_read_module_image file mo is_partial_module cs rs =
     (let (p, img) = file
      in if is_partial_module then PartialModuleImage_init img mo p cs rs None None None
         else ModuleImage_init img mo p cs rs None)"

text \<open>
  The body of the loop that rebuilds an image (io.py, lines 90 to 97), given the two
  flags and the target shape computed before the loop.
\<close>

definition rebuild :: "bool \<Rightarrow> bool \<Rightarrow> nat \<times> nat \<Rightarrow> image \<Rightarrow> error + image" where
  "rebuild homogeneous_types homogeneous_shapes target_shape img =
     (let d0 = data img;
          d1 = (if \<not> homogeneous_types then astype_float64 d0 else d0)
      in case (if \<not> homogeneous_shapes
                 then (case np_min d1 of
                         Inl e \<Rightarrow> Inl e
                       | Inr mn \<Rightarrow> set_topleft (np_full target_shape mn (dtype d1)) d1)
               else Inr d1) of
           Inl e \<Rightarrow> Inl e
         | Inr d2 \<Rightarrow>
             (case cols img of
                Inl e \<Rightarrow> Inl e
              | Inr cs \<Rightarrow>
                  (case rows img of
                     Inl e \<Rightarrow> Inl e
                   | Inr rs \<Rightarrow> ModuleImage_init d2 (modality img) (path_of img) cs rs None)))"

text \<open>The branch \<^verbatim>\<open>if not same_camera\<close> of \<^verbatim>\<open>_read_module_images\<close> (lines 78 to 98).\<close>

definition resolve :: "image list \<Rightarrow> error + image list" where
  "resolve imgs =
     (let homogeneous_types =
            (case imgs of [] \<Rightarrow> True
             | i0 # _ \<Rightarrow> list_all (\<lambda>img. img_dtype img = img_dtype i0) imgs);
          shapes = map img_shape imgs;
          homogeneous_shapes =
            (case shapes of [] \<Rightarrow> True | s0 # _ \<Rightarrow> list_all (\<lambda>s. s = s0) shapes)
      in case np_max_axis0 shapes of
           Inl e \<Rightarrow> Inl e
         | Inr target_shape \<Rightarrow>
             if \<not> homogeneous_types \<or> \<not> homogeneous_shapes
               then map_results (rebuild homogeneous_types homogeneous_shapes target_shape) imgs
             else Inr imgs)"

text \<open>
  A call \<^verbatim>\<open>ModuleImageSequence(imgs, k1=v1, ...)\<close> with keyword arguments. Python binds
  the keywords to the parameters \<^verbatim>\<open>same_camera\<close> and \<^verbatim>\<open>allow_different_dtypes\<close> of
  \<^verbatim>\<open>__init__\<close> before the body runs, and raises TypeError on any other keyword.
\<close>

definition ModuleImageSequence_kwargs :: "image list \<Rightarrow> (string \<times> bool) list \<Rightarrow> error + imgseq" where
  "ModuleImageSequence_kwargs imgs kwargs =
     (case filter (\<lambda>(k, v). k \<noteq> ''same_camera'' \<and> k \<noteq> ''allow_different_dtypes'') kwargs of
        (k, v) # _ \<Rightarrow> Inl (TypeError (''__init__() got an unexpected keyword argument '' @ k))
      | [] \<Rightarrow>
          (case map_of kwargs ''same_camera'' of
             None \<Rightarrow> Inl (TypeError ''__init__() missing 1 required positional argument: same_camera'')
           | Some sc \<Rightarrow>
               ModuleImageSequence_init imgs sc
                 (case map_of kwargs ''allow_different_dtypes'' of None \<Rightarrow> False | Some a \<Rightarrow> a)))"

text \<open>
  \<^verbatim>\<open>_read_module_images\<close>, given the matching files in sorted order, each with its
  decoded array. The last line of the source is
  \<^verbatim>\<open>ModuleImageSequence(imgs, copy=False, same_camera=same_camera,
  allow_different_dtypes=allow_different_dtypes)\<close>.
\<close>

definition priv_read_module_images ::
  "(path \<times> ndarray) list \<Rightarrow> int option \<Rightarrow> bool \<Rightarrow> bool \<Rightarrow> int option \<Rightarrow> int option
     \<Rightarrow> int \<Rightarrow> bool \<Rightarrow> error + imgseq" where
  "priv_read_module_images files mo same_cam is_partial_module cs rs N allow =
     (let imgpaths = (if 0 < N \<and> N < int (length files) then take (nat N) files else files)
      in case map_results (\<lambda>fn. priv_read_module_image fn mo is_partial_module cs rs) imgpaths of
           Inl e \<Rightarrow> Inl e
         | Inr imgs \<Rightarrow>
             (case (if \<not> same_cam then resolve imgs else Inr imgs) of
                Inl e \<Rightarrow> Inl e
              | Inr imgs' \<Rightarrow>
                  ModuleImageSequence_kwargs imgs'
                    [(''copy'', False), (''same_camera'', same_cam),
                     (''allow_different_dtypes'', allow)]))"

subsection \<open>The padding in the specification's words\<close>

text \<open>
  The specification describes the rebuilt data as "a canvas of the bounding shape filled
  with that image's own minimum value" with "the original data at the top-left origin
  (row 0, col 0)", the bounding shape being the "elementwise maximum of per-axis sizes".
  These definitions say that, entry by entry; the code's are compared with them.
\<close>

definition bounding_shape :: "(nat \<times> nat) list \<Rightarrow> nat \<times> nat" where
  "bounding_shape shapes = (Max (set (map fst shapes)), Max (set (map snd shapes)))"

definition minimum_value :: "ndarray \<Rightarrow> rat" where
  "minimum_value d = Min (set (concat (vals d)))"

definition padded_canvas :: "nat \<times> nat \<Rightarrow> ndarray \<Rightarrow> ndarray" where
  "padded_canvas sh d =
     \<lparr>dtype = dtype d,
      vals = map (\<lambda>i. map (\<lambda>j. if i < fst (shape d) \<and> j < snd (shape d)
                                  then vals d ! i ! j else minimum_value d)
                        [0..<snd sh])
                 [0..<fst sh]\<rparr>"

text \<open>
  What the reading loop hands to the resolution: module images (partial or not) with the
  modality and geometry given to the reader, whose data is non-empty and rectangular
  and has one of the three stored element types.
\<close>

fun read_as :: "int option \<Rightarrow> int option \<Rightarrow> int option \<Rightarrow> image \<Rightarrow> bool" where
  "read_as mo cs rs (ModuleImage d m p cs' rs' t) = (m = mo \<and> cs' = cs \<and> rs' = rs)"
| "read_as mo cs rs (PartialModuleImage d m p cs' rs' fc fr t) = (m = mo \<and> cs' = cs \<and> rs' = rs)"
| "read_as mo cs rs _ = False"

definition proper_data :: "ndarray \<Rightarrow> bool" where
  "proper_data d =
     (vals d \<noteq> [] \<and> 0 < snd (shape d) \<and> rect d
      \<and> (dtype d = UInt16 \<or> dtype d = Float32 \<or> dtype d = Float64))"

section \<open>Example values\<close>

text \<open>Small images and sequences on which the theorems below are evaluated.\<close>

definition ex_u16_a :: image where
  "ex_u16_a = Image \<lparr>dtype = UInt16, vals = [[1, 2]]\<rparr> ''a.png'' (Some 0)"

definition ex_u16_b :: image where
  "ex_u16_b = Image \<lparr>dtype = UInt16, vals = [[65535, 5]]\<rparr> ''b.png'' (Some 0)"

definition ex_f32 :: image where
  "ex_f32 = Image \<lparr>dtype = Float32, vals = [[1 / 2, 1 / 4]]\<rparr> ''c.png'' (Some 0)"

definition ex_f64 :: image where
  "ex_f64 = Image \<lparr>dtype = Float64, vals = [[1 / 2, 1 / 4]]\<rparr> ''d.png'' (Some 0)"

definition ex_seq :: "image list \<Rightarrow> imgseq" where
  "ex_seq imgs = \<lparr>seq_class = ImageSequenceC, images = imgs, same_camera = True,
                    allow_different_dtypes = False\<rparr>"

definition ex_module :: image where
  "ex_module = ModuleImage \<lparr>dtype = UInt16, vals = [[1, 2]]\<rparr> (Some 0) ''m.png'' (Some 2) (Some 1) None"

definition ex_module_unset :: image where
  "ex_module_unset = ModuleImage \<lparr>dtype = UInt16, vals = [[1, 2]]\<rparr> (Some 0) ''m.png'' (Some 2) None None"

definition ex_mk :: "ndarray \<Rightarrow> path \<Rightarrow> image" where
  "ex_mk d p = ModuleImage d (Some 0) p (Some 2) (Some 1) None"

definition ex_files_shapes :: "(path \<times> ndarray) list" where
  "ex_files_shapes =
     [(''a.png'', \<lparr>dtype = UInt16, vals = [[5]]\<rparr>),
      (''b.png'', \<lparr>dtype = UInt16, vals = [[3, 4]]\<rparr>),
      (''c.png'', \<lparr>dtype = UInt16, vals = [[7], [6]]\<rparr>)]"

definition ex_imgs_shapes :: "image list" where
  "ex_imgs_shapes = map (\<lambda>(p, d). ex_mk d p) ex_files_shapes"

definition ex_padded :: "image list" where
  "ex_padded =
     [ex_mk \<lparr>dtype = UInt16, vals = [[5, 5], [5, 5]]\<rparr> ''a.png'',
      ex_mk \<lparr>dtype = UInt16, vals = [[3, 4], [3, 3]]\<rparr> ''b.png'',
      ex_mk \<lparr>dtype = UInt16, vals = [[7, 6], [6, 6]]\<rparr> ''c.png'']"

definition ex_files_dtypes :: "(path \<times> ndarray) list" where
  "ex_files_dtypes =
     [(''a.png'', \<lparr>dtype = UInt16, vals = [[5]]\<rparr>),
      (''b.png'', \<lparr>dtype = Float64, vals = [[1 / 2]]\<rparr>)]"

definition ex_imgs_dtypes :: "image list" where
  "ex_imgs_dtypes = map (\<lambda>(p, d). ex_mk d p) ex_files_dtypes"

definition ex_cast :: "image list" where
  "ex_cast =
     [ex_mk \<lparr>dtype = Float64, vals = [[5]]\<rparr> ''a.png'',
      ex_mk \<lparr>dtype = Float64, vals = [[1 / 2]]\<rparr> ''b.png'']"

definition ex_imgs_mixed :: "image list" where
  "ex_imgs_mixed =
     [ex_mk \<lparr>dtype = UInt16, vals = [[5]]\<rparr> ''a.png'',
      ex_mk \<lparr>dtype = Float32, vals = [[1 / 2, 1 / 4]]\<rparr> ''b.png'']"

section \<open>Properties of the sequence constructors\<close>

lemma ImageSequence_init_empty: "ImageSequence_init [] sc allow = Inl (Fatal msg_empty)"
  by (simp add: ImageSequence_init_def base_init_def fatal_def)

lemma CellImageSequence_init_empty: "CellImageSequence_init [] copy = Inl (Fatal msg_empty)"
  by (simp add: CellImageSequence_init_def base_init_def fatal_def)

text \<open>
  C5. An empty list of images is to end every sequence constructor with the fatal
  error. The base class and \<^verbatim>\<open>CellImageSequence\<close> do so (the two lemmas above);
  \<^verbatim>\<open>ModuleImageSequence.__init__\<close> reads \<^verbatim>\<open>images[0].cols\<close> before it calls the base
  constructor, so on the empty list an IndexError reaches the caller, whatever the flags,
  and the guard of the base class is never run.
\<close>

theorem ModuleImageSequence_init_empty:
  "ModuleImageSequence_init [] sc allow = Inl (IndexError ''list index out of range'')"
  by (simp add: ModuleImageSequence_init_def)

text \<open>
  Without the shape check (\<^verbatim>\<open>same_camera\<close> false) and with one modality throughout, the
  loop of the base constructor fails exactly on a dtype that differs from the first
  while \<^verbatim>\<open>allow_different_dtypes\<close> is false.
\<close>

lemma check_images_no_camera:
  "list_all (\<lambda>img. modality img = mo) imgs \<Longrightarrow>
   check_images dt sh mo False allow imgs =
     (if allow \<or> list_all (\<lambda>img. img_dtype img = dt) imgs then Inr ()
      else fatal msg_mixed_dtypes)"
  by (induction imgs) auto

text \<open>
  C10. \<^verbatim>\<open>CellImageSequence(images, copy)\<close> hands \<^verbatim>\<open>copy\<close> to the base constructor as
  \<^verbatim>\<open>allow_different_dtypes\<close>. For a non-empty list of images of one modality: with
  \<^verbatim>\<open>copy=True\<close> (the default) the sequence is built whatever the dtypes are, and its
  \<^verbatim>\<open>dtype\<close> property is None even when the dtypes agree; with \<^verbatim>\<open>copy=False\<close> the
  sequence is built when every dtype equals the first one, and construction ends with the
  fatal mixed-dtypes error otherwise.
\<close>

theorem CellImageSequence_copy_flag:
  assumes "list_all (\<lambda>img. modality img = modality i0) (i0 # rest)"
  shows "CellImageSequence_init (i0 # rest) True =
           Inr \<lparr>seq_class = CellImageSequenceC, images = i0 # rest, same_camera = False,
                allow_different_dtypes = True\<rparr>
       \<and> seq_dtype \<lparr>seq_class = CellImageSequenceC, images = i0 # rest,
                same_camera = False, allow_different_dtypes = True\<rparr> = Inr None
       \<and> CellImageSequence_init (i0 # rest) False =
           (if list_all (\<lambda>img. img_dtype img = img_dtype i0) (i0 # rest)
            then Inr \<lparr>seq_class = CellImageSequenceC, images = i0 # rest,
                      same_camera = False, allow_different_dtypes = False\<rparr>
            else Inl (Fatal msg_mixed_dtypes))"
  by (simp del: check_images.simps
        add: check_images_no_camera[OF assms] CellImageSequence_init_def base_init_def
          seq_dtype_def fatal_def)

theorem CellImageSequence_copy_flag_witness:
  "CellImageSequence_init
     [CellImage \<lparr>dtype = UInt16, vals = [[1]]\<rparr> (Some 0) ''a.png'' 0 0,
      CellImage \<lparr>dtype = Float64, vals = [[1 / 2]]\<rparr> (Some 0) ''a.png'' 0 1] True =
     Inr \<lparr>seq_class = CellImageSequenceC,
          images = [CellImage \<lparr>dtype = UInt16, vals = [[1]]\<rparr> (Some 0) ''a.png'' 0 0,
                    CellImage \<lparr>dtype = Float64, vals = [[1 / 2]]\<rparr> (Some 0) ''a.png'' 0 1],
          same_camera = False, allow_different_dtypes = True\<rparr>
   \<and> CellImageSequence_init
     [CellImage \<lparr>dtype = UInt16, vals = [[1]]\<rparr> (Some 0) ''a.png'' 0 0,
      CellImage \<lparr>dtype = Float64, vals = [[1 / 2]]\<rparr> (Some 0) ''a.png'' 0 1] False =
     Inl (Fatal msg_mixed_dtypes)"
  using CellImageSequence_copy_flag
    [of "CellImage \<lparr>dtype = UInt16, vals = [[1]]\<rparr> (Some 0) ''a.png'' 0 0"
        "[CellImage \<lparr>dtype = Float64, vals = [[1 / 2]]\<rparr> (Some 0) ''a.png'' 0 1]"]
  by (simp add: img_dtype_def)

section \<open>Properties of the arithmetic operators\<close>

lemma map_results_Inr_iff:
  "map_results f xs = Inr ys \<longleftrightarrow>
     length ys = length xs \<and> (\<forall>i<length xs. f (xs ! i) = Inr (ys ! i))"
proof (induction xs arbitrary: ys)
  case Nil
  then show ?case by auto
next
  case (Cons x xs)
  show ?case
  proof (cases ys)
    case Nil
    then show ?thesis by (auto split: sum.splits)
  next
    case (Cons y ys')
    then show ?thesis using Cons.IH[of ys']
      by (auto split: sum.splits simp: nth_Cons less_Suc_eq_0_disj split: nat.splits)
  qed
qed

lemma base_init_Inr:
  "base_init k imgs sc allow = Inr s \<Longrightarrow>
   s = \<lparr>seq_class = k, images = imgs, same_camera = sc, allow_different_dtypes = allow\<rparr>"
  by (auto simp: base_init_def fatal_def split: list.splits sum.splits)

lemma ModuleImageSequence_init_Inr:
  "ModuleImageSequence_init imgs sc allow = Inr s \<Longrightarrow>
   s = \<lparr>seq_class = ModuleImageSequenceC, images = imgs, same_camera = sc,
        allow_different_dtypes = allow\<rparr>"
  by (auto simp: ModuleImageSequence_init_def split: list.splits sum.splits
      dest: base_init_Inr)

lemma seq_from_other_images_Inr:
  "seq_from_other_images a imgs = Inr s \<Longrightarrow>
   s = \<lparr>seq_class = seq_class a, images = imgs, same_camera = same_camera a,
        allow_different_dtypes = allow_different_dtypes a\<rparr>"
  by (auto simp: seq_from_other_images_def ImageSequence_init_def split: seq_class.splits
      dest: base_init_Inr ModuleImageSequence_init_Inr)

text \<open>
  C3, as the code has it. A sequence operator pairs the images by position with
  \<^verbatim>\<open>zip\<close>, which stops at the shorter sequence, and never compares the lengths: when the
  image operator succeeds at every position below the shorter length, with results
  \<open>rs\<close>, the operator is the constructor call \<^verbatim>\<open>from_other(self, images = rs)\<close>, and a
  sequence it returns has exactly the images \<open>rs\<close> and the class and flags of the left
  operand.
\<close>

theorem ImageSequence_binop_zip:
  assumes "length rs = min (length (images a)) (length (images b))"
    and "\<forall>i<length rs. img_op (images a ! i) (images b ! i) = Inr (rs ! i)"
  shows "ImageSequence_binop img_op a b = seq_from_other_images a rs
       \<and> (\<forall>s. ImageSequence_binop img_op a b = Inr s \<longrightarrow>
            s = \<lparr>seq_class = seq_class a, images = rs, same_camera = same_camera a,
                 allow_different_dtypes = allow_different_dtypes a\<rparr>)"
proof -
  have "map_results (\<lambda>(x, y). img_op x y) (zip (images a) (images b)) = Inr rs"
    using assms by (simp add: map_results_Inr_iff)
  then have "ImageSequence_binop img_op a b = seq_from_other_images a rs"
    by (simp add: ImageSequence_binop_def)
  then show ?thesis by (auto dest: seq_from_other_images_Inr)
qed

lemma ex_add_ab:
  "Image_binop np_add ex_u16_a ex_u16_b =
     Inr (Image \<lparr>dtype = UInt16, vals = [[0, 7]]\<rparr> ''a.png'' (Some 0))"
  by (simp add: ex_u16_a_def ex_u16_b_def Image_binop_def np_add_def img_dtype_def
      shape_def Image_init_def common_dtype_def img_as_uint_def)

lemma ex_add_bb:
  "Image_binop np_add ex_u16_b ex_u16_b =
     Inr (Image \<lparr>dtype = UInt16, vals = [[65534, 10]]\<rparr> ''b.png'' (Some 0))"
  by (simp add: ex_u16_b_def Image_binop_def np_add_def img_dtype_def
      shape_def Image_init_def common_dtype_def img_as_uint_def)

theorem ImageSequence_binop_zip_witness:
  "length [Image \<lparr>dtype = UInt16, vals = [[0, 7]]\<rparr> ''a.png'' (Some 0)] =
     min (length (images (ex_seq [ex_u16_a]))) (length (images (ex_seq [ex_u16_b])))
   \<and> ImageSequence_binop (Image_binop np_add) (ex_seq [ex_u16_a]) (ex_seq [ex_u16_b]) =
       Inr (ex_seq [Image \<lparr>dtype = UInt16, vals = [[0, 7]]\<rparr> ''a.png'' (Some 0)])"
proof -
  let ?r = "Image \<lparr>dtype = UInt16, vals = [[0, 7]]\<rparr> ''a.png'' (Some 0)"
  have len: "length [?r] =
      min (length (images (ex_seq [ex_u16_a]))) (length (images (ex_seq [ex_u16_b])))"
    by (simp add: ex_seq_def)
  have ops: "\<forall>i<length [?r]. Image_binop np_add (images (ex_seq [ex_u16_a]) ! i)
      (images (ex_seq [ex_u16_b]) ! i) = Inr ([?r] ! i)"
    by (simp add: ex_seq_def ex_add_ab)
  have "ImageSequence_binop (Image_binop np_add) (ex_seq [ex_u16_a]) (ex_seq [ex_u16_b]) =
      seq_from_other_images (ex_seq [ex_u16_a]) [?r]"
    using ImageSequence_binop_zip [OF len ops] by (rule conjunct1)
  also have "\<dots> = Inr (ex_seq [?r])"
    by (simp add: ex_seq_def seq_from_other_images_def ImageSequence_init_def
        base_init_def img_dtype_def img_shape_def shape_def)
  finally show ?thesis using len by simp
qed

text \<open>
  The claim as stated requires equal lengths. Adding a sequence of one image to a
  sequence of two succeeds, with a sequence of one image.
\<close>

theorem ImageSequence_binop_unequal_lengths:
  "ImageSequence_binop (Image_binop np_add) (ex_seq [ex_u16_b, ex_u16_a]) (ex_seq [ex_u16_b]) =
     Inr (ex_seq [Image \<lparr>dtype = UInt16, vals = [[65534, 10]]\<rparr> ''b.png'' (Some 0)])"
proof -
  have "map_results (\<lambda>(x, y). Image_binop np_add x y)
      (zip (images (ex_seq [ex_u16_b, ex_u16_a])) (images (ex_seq [ex_u16_b]))) =
      Inr [Image \<lparr>dtype = UInt16, vals = [[65534, 10]]\<rparr> ''b.png'' (Some 0)]"
    by (simp add: ex_seq_def ex_add_bb)
  then show ?thesis
    by (simp add: ImageSequence_binop_def ex_seq_def seq_from_other_images_def
        ImageSequence_init_def base_init_def img_dtype_def img_shape_def shape_def)
qed

text \<open>
  On a \<^verbatim>\<open>CellImageSequence\<close> the operators compute the images and then fail in
  \<^verbatim>\<open>from_other\<close>, which looks for the attribute \<^verbatim>\<open>_copy\<close>.
\<close>

lemma ImageSequence_binop_cell:
  assumes "seq_class a = CellImageSequenceC"
    and "map_results (\<lambda>(x, y). img_op x y) (zip (images a) (images b)) = Inr rs"
  shows "ImageSequence_binop img_op a b = Inl (AttributeError ''_copy'')"
  using assms by (simp add: ImageSequence_binop_def seq_from_other_images_def)

text \<open>
  C4, as the code has it. On two images of different dtypes the operators
  \<^verbatim>\<open>+ - * // % **\<close> raise \<^verbatim>\<open>RuntimeError('Images must have the same datatype')\<close>: an
  exception that reaches the caller; nothing is logged and \<^verbatim>\<open>exit\<close> is not called.
  \<^verbatim>\<open>/\<close> raises \<^verbatim>\<open>RuntimeError('Images must be of type float')\<close> when an operand is not
  float32 or float64, and otherwise divides without comparing the dtypes.
\<close>

theorem Image_binop_dtype_mismatch:
  assumes "img_dtype a \<noteq> img_dtype b"
  shows "Image_binop np_op a b = Inl (RuntimeError ''Images must have the same datatype'')
       \<and> Image_truediv np_op a b =
           (if is_float (img_dtype a) \<and> is_float (img_dtype b)
            then (case np_op (data a) (data b) of
                    Inl e \<Rightarrow> Inl e
                  | Inr d \<Rightarrow> from_other_data a d)
            else Inl (RuntimeError ''Images must be of type float''))"
  using assms by (simp add: Image_binop_def Image_truediv_def)

theorem Image_binop_dtype_mismatch_witness:
  "img_dtype ex_u16_a \<noteq> img_dtype ex_f32
   \<and> Image_binop np_add ex_u16_a ex_f32 =
       Inl (RuntimeError ''Images must have the same datatype'')
   \<and> Image_truediv np_add ex_u16_a ex_f32 = Inl (RuntimeError ''Images must be of type float'')"
  using Image_binop_dtype_mismatch [of ex_u16_a ex_f32 np_add]
  by (simp add: ex_u16_a_def ex_f32_def img_dtype_def is_float_def)

text \<open>
  The claim as stated makes the mismatch a logged fatal error with no exception. Adding
  a float32 image and a float64 image ends with the RuntimeError, not with \<open>Fatal\<close>.
\<close>

theorem Image_add_mismatch_raises:
  "Image_binop np_add ex_f32 ex_f64 = Inl (RuntimeError ''Images must have the same datatype'')"
  by (simp add: Image_binop_def ex_f32_def ex_f64_def img_dtype_def)

section \<open>Properties of construction and conversion\<close>

lemma img_as_uint_dtype: "img_as_uint a = Inr d \<Longrightarrow> dtype d = UInt16"
  by (auto simp: img_as_uint_def split: if_splits)

lemma img_as_uint_id: "dtype a = UInt16 \<Longrightarrow> img_as_uint a = Inr a"
  by (simp add: img_as_uint_def)

lemma common_dtype_uint16: "dtype d = UInt16 \<Longrightarrow> common_dtype d = Inr d"
  by (simp add: common_dtype_def img_as_uint_def)

lemma common_dtype_float: "is_float (dtype d) \<Longrightarrow> common_dtype d = Inr d"
  by (auto simp: common_dtype_def is_float_def)

lemma common_dtype_total:
  "\<exists>d'. common_dtype d = Inr d' \<and> dtype d' \<in> {UInt16, Float32, Float64}
     \<and> (if is_float (dtype d) \<or> dtype d = UInt16 then d' = d else img_as_uint d = Inr d')"
  by (cases "dtype d") (auto simp: common_dtype_def img_as_uint_def is_float_def)

lemma from_other_data_uint16:
  "dtype d = UInt16 \<Longrightarrow> \<exists>img'. from_other_data img d = Inr img' \<and> data img' = d
     \<and> from_other_data img' d = Inr img'"
  by (cases img)
     (simp_all add: Image_init_def CellImage_init_def ModuleImage_init_def
       PartialModuleImage_init_def common_dtype_uint16)

text \<open>
  C7. \<^verbatim>\<open>as_type(uint16)\<close> is idempotent: applying it to its own result returns that
  result unchanged, and where the first application raises (float data outside
  [-1, 1]) so does the composition. The left side is the second application run on the
  outcome of the first.
\<close>

theorem as_type_uint16_idempotent:
  "(case Image_as_type img UInt16 of
      Inl e \<Rightarrow> Inl e
    | Inr img' \<Rightarrow> Image_as_type img' UInt16) = Image_as_type img UInt16"
proof (cases "img_as_uint (data img)")
  case (Inl e)
  then show ?thesis by (simp add: Image_as_type_def)
next
  case (Inr d)
  then have dt: "dtype d = UInt16" by (rule img_as_uint_dtype)
  from from_other_data_uint16[OF dt, of img] obtain img' where
    a: "from_other_data img d = Inr img'" and b: "data img' = d"
    and c: "from_other_data img' d = Inr img'" by blast
  have "Image_as_type img UInt16 = Inr img'" using Inr a by (simp add: Image_as_type_def)
  moreover have "Image_as_type img' UInt16 = Inr img'"
    using b c dt by (simp add: Image_as_type_def img_as_uint_id)
  ultimately show ?thesis by simp
qed

text \<open>The conversion does return on float data in range: 1/2 and 1/4 become 32768 and 16384.\<close>

lemma as_type_uint16_example:
  "Image_as_type ex_f64 UInt16 =
     Inr (Image \<lparr>dtype = UInt16, vals = [[32768, 16384]]\<rparr> ''d.png'' (Some 0))"
  by code_simp

text \<open>
  C9, as the code has it. Each of the four constructors stores float32 and float64 data,
  and data that is already 16-bit unsigned, unchanged, and stores the result of
  \<^verbatim>\<open>img_as_uint\<close> for every other element type; the stored element type is always
  16-bit unsigned, float32 or float64. Nothing makes the conversion lossless.
\<close>

theorem constructors_common_dtype:
  "\<exists>d'. Image_init d p m = Inr (Image d' p m)
        \<and> CellImage_init d m p r c = Inr (CellImage d' m p r c)
        \<and> ModuleImage_init d m p cs rs t = Inr (ModuleImage d' m p cs rs t)
        \<and> PartialModuleImage_init d m p cs rs fc fr t =
            Inr (PartialModuleImage d' m p cs rs fc fr t)
        \<and> dtype d' \<in> {UInt16, Float32, Float64}
        \<and> (if is_float (dtype d) \<or> dtype d = UInt16 then d' = d
            else img_as_uint d = Inr d')"
  using common_dtype_total[of d]
  by (auto simp: Image_init_def CellImage_init_def ModuleImage_init_def
      PartialModuleImage_init_def)

text \<open>
  The claim as stated calls the rescale lossless. Two different signed 16-bit images,
  one holding -1 and one holding -2, are stored as the same image, holding 0.
\<close>

theorem int16_not_lossless:
  "Image_init \<lparr>dtype = Int16, vals = [[- 1]]\<rparr> ''a.png'' None =
     Inr (Image \<lparr>dtype = UInt16, vals = [[0]]\<rparr> ''a.png'' None)
   \<and> Image_init \<lparr>dtype = Int16, vals = [[- 2]]\<rparr> ''a.png'' None =
     Inr (Image \<lparr>dtype = UInt16, vals = [[0]]\<rparr> ''a.png'' None)"
  by code_simp

section \<open>Properties of the grid\<close>

lemma zip_concat_map:
  "(\<And>x. x \<in> set xs \<Longrightarrow> length (f x) = length (g x)) \<Longrightarrow>
   zip (concat (map f xs)) (concat (map g xs)) = concat (map (\<lambda>x. zip (f x) (g x)) xs)"
  by (induction xs) simp_all

lemma zip_const_left: "zip (map (\<lambda>j. i) ys) ys = map (Pair i) ys"
  by (induction ys) simp_all

lemma mgrid_zip:
  "zip (flatten (map (\<lambda>i. map (\<lambda>j. i) ys) xs)) (flatten (map (\<lambda>i. ys) xs))
     = List.product xs ys"
  unfolding flatten_def
  by (subst zip_concat_map) (simp_all add: zip_const_left product_concat_map)

lemma grid_of_lattice:
  assumes "0 \<le> c" "0 \<le> r"
  shows "grid_of (Some c) (Some r) = Inr (List.product [0..c] [0..r])"
  using assms by (simp add: grid_of_def mgrid_def mgrid_zip)

lemma product_lattice:
  assumes "0 \<le> c" "0 \<le> r"
  shows "length (List.product [0..c] [0..r]) = nat ((c + 1) * (r + 1))"
    and "distinct (List.product [0..c] [0..r])"
    and "set (List.product [0..c] [0..r]) = {(x, y). 0 \<le> x \<and> x \<le> c \<and> 0 \<le> y \<and> y \<le> r}"
  using assms by (auto simp: distinct_product nat_mult_distrib)

text \<open>
  C8. For a module image (\<^verbatim>\<open>ModuleImage\<close> or \<^verbatim>\<open>PartialModuleImage\<close>) whose \<^verbatim>\<open>cols\<close> and
  \<^verbatim>\<open>rows\<close> are set to cell counts \<open>c\<close> and \<open>r\<close>, \<^verbatim>\<open>grid()\<close> returns \<open>(c+1)(r+1)\<close>
  rows of two coordinates, without repetition, and they are exactly the pairs \<open>(x, y)\<close>
  with \<open>0 \<le> x \<le> c\<close> and \<open>0 \<le> y \<le> r\<close>; when \<^verbatim>\<open>cols\<close> or \<^verbatim>\<open>rows\<close> is unset, it ends
  with the fatal error "Module geometry is not initialized".
\<close>

theorem grid_lattice:
  assumes "cols img = Inr cs" and "rows img = Inr rs"
  shows "(cs = Some c \<and> rs = Some r \<and> 0 \<le> c \<and> 0 \<le> r \<longrightarrow>
            (\<exists>g. grid img = Inr g \<and> length g = nat ((c + 1) * (r + 1)) \<and> distinct g
               \<and> set g = {(x, y). 0 \<le> x \<and> x \<le> c \<and> 0 \<le> y \<and> y \<le> r}))
       \<and> (cs = None \<or> rs = None \<longrightarrow>
            grid img = Inl (Fatal ''Module geometry is not initialized''))"
proof (intro conjI impI)
  assume h: "cs = Some c \<and> rs = Some r \<and> 0 \<le> c \<and> 0 \<le> r"
  then have "grid img = Inr (List.product [0..c] [0..r])"
    using assms grid_of_lattice[of c r] by (cases img) auto
  then show "\<exists>g. grid img = Inr g \<and> length g = nat ((c + 1) * (r + 1)) \<and> distinct g
               \<and> set g = {(x, y). 0 \<le> x \<and> x \<le> c \<and> 0 \<le> y \<and> y \<le> r}"
    using product_lattice[of c r] h by simp
next
  assume "cs = None \<or> rs = None"
  then show "grid img = Inl (Fatal ''Module geometry is not initialized'')"
    using assms by (cases img) (auto simp: grid_of_def fatal_def split: option.splits)
qed

theorem grid_lattice_witness:
  "cols ex_module = Inr (Some 2) \<and> rows ex_module = Inr (Some 1)
   \<and> (\<exists>g. grid ex_module = Inr g \<and> length g = 6 \<and> distinct g
          \<and> set g = {(x, y). 0 \<le> x \<and> x \<le> 2 \<and> 0 \<le> y \<and> y \<le> 1})
   \<and> cols ex_module_unset = Inr (Some 2) \<and> rows ex_module_unset = Inr None
   \<and> grid ex_module_unset = Inl (Fatal ''Module geometry is not initialized'')"
proof -
  have a: "cols ex_module = Inr (Some 2)" and b: "rows ex_module = Inr (Some 1)"
    by (simp_all add: ex_module_def)
  have c: "cols ex_module_unset = Inr (Some 2)" and d: "rows ex_module_unset = Inr None"
    by (simp_all add: ex_module_unset_def)
  from grid_lattice [OF a b, of 2 1]
  have e: "\<exists>g. grid ex_module = Inr g \<and> length g = 6 \<and> distinct g
          \<and> set g = {(x, y). 0 \<le> x \<and> x \<le> 2 \<and> 0 \<le> y \<and> y \<le> 1}"
    by simp
  from grid_lattice [OF c d, of 0 0]
  have f: "grid ex_module_unset = Inl (Fatal ''Module geometry is not initialized'')"
    by simp
  from a b c d e f show ?thesis by blast
qed

section \<open>Properties of the sequence adapter\<close>

lemma single_ImageSequence:
  "ImageSequence_init [img] False False =
     Inr \<lparr>seq_class = ImageSequenceC, images = [img], same_camera = False,
          allow_different_dtypes = False\<rparr>"
  by (simp add: ImageSequence_init_def base_init_def)

lemma single_ModuleImageSequence:
  "is_exactly_ModuleImage img \<Longrightarrow>
   ModuleImageSequence_init [img] False False =
     Inr \<lparr>seq_class = ModuleImageSequenceC, images = [img], same_camera = False,
          allow_different_dtypes = False\<rparr>"
  by (cases img) (simp_all add: ModuleImageSequence_init_def base_init_def)

text \<open>
  Called with a single image, the adapter calls the function with a sequence of that one
  image, a \<^verbatim>\<open>ModuleImageSequence\<close> exactly for a \<^verbatim>\<open>ModuleImage\<close>; it returns the function's
  result as it is when unwrapping is disabled and unwraps it otherwise. Called with a
  sequence, it is the function.
\<close>

lemma wrapper_sequence_single:
  "wrapper_sequence disable_unwrap func (Single img) =
     (case func \<lparr>seq_class = (if is_exactly_ModuleImage img then ModuleImageSequenceC
                                else ImageSequenceC),
                  images = [img], same_camera = False, allow_different_dtypes = False\<rparr> of
        Inl e \<Rightarrow> Inl e
      | Inr res \<Rightarrow> if disable_unwrap then Inr res else unwrap_result res)"
  by (simp add: wrapper_sequence_def single_ImageSequence single_ModuleImageSequence
      split: sum.splits)

lemma wrapper_sequence_sequence: "wrapper_sequence disable_unwrap func (Sequence s) = func s"
  by (simp add: wrapper_sequence_def)

lemma unwrap_result_sequence:
  "images s = [img] \<Longrightarrow> unwrap_result (VSeq s) = Inr (VImage img)"
  by (simp add: unwrap_result_def)

text \<open>
  C6. With unwrapping enabled and a single image passed in, a result that is a tuple
  whose first member is a sequence is to come back with that member replaced by its
  single image. The code writes \<^verbatim>\<open>res[0] = res[0].images[0]\<close> on the tuple, which
  Python refuses: the call ends with a TypeError. Here the decorated function returns
  the pair of its sequence and another object.
\<close>

theorem wrapper_sequence_tuple_result:
  "wrapper_sequence False (\<lambda>s. Inr (VTuple [VSeq s, VOther 0])) (Single ex_module) =
     Inl (TypeError ''tuple object does not support item assignment'')"
  by (simp add: wrapper_sequence_single unwrap_result_def)

section \<open>Properties of the bulk reader\<close>

text \<open>The numpy reductions compute the specification's bounding shape and minimum.\<close>

lemma fold_max_pairs:
  "fold (\<lambda>(a, b) (x, y). (max a x, max b y)) ss s =
     (fold max (map fst ss) (fst s), fold max (map snd ss) (snd s))"
  by (induction ss arbitrary: s) (auto simp: case_prod_beta)

lemma np_max_axis0_bounding:
  assumes "shapes \<noteq> []"
  shows "np_max_axis0 shapes = Inr (bounding_shape shapes)"
proof (cases shapes)
  case Nil
  then show ?thesis using assms by simp
next
  case (Cons a list)
  show ?thesis
    using Max.set_eq_fold[of "fst a" "map fst list"] Max.set_eq_fold[of "snd a" "map snd list"]
    by (simp add: Cons np_max_axis0_def bounding_shape_def fold_max_pairs)
qed

lemma np_min_minimum:
  assumes "concat (vals d) \<noteq> []"
  shows "np_min d = Inr (minimum_value d)"
proof (cases "concat (vals d)")
  case Nil
  then show ?thesis using assms by simp
next
  case (Cons a list)
  show ?thesis
    using Min.set_eq_fold[of a list]
    by (simp add: Cons np_min_def minimum_value_def)
qed

lemma bounding_shape_upper:
  assumes "s \<in> set shapes"
  shows "fst s \<le> fst (bounding_shape shapes)" and "snd s \<le> snd (bounding_shape shapes)"
  using assms by (auto simp: bounding_shape_def)

lemma rect_row_length:
  "rect d \<Longrightarrow> i < length (vals d) \<Longrightarrow> length (vals d ! i) = snd (shape d)"
  by (simp add: rect_def list_all_length)

text \<open>
  Filling a canvas of a shape that bounds the image and assigning the image to its
  top-left slice gives the padded canvas of the specification.
\<close>

lemma set_topleft_full:
  assumes "rect d" and "fst (shape d) \<le> fst sh" and "snd (shape d) \<le> snd sh"
  shows "set_topleft (np_full sh (minimum_value d) (dtype d)) d = Inr (padded_canvas sh d)"
proof -
  obtain R C where sh: "sh = (R, C)" by (cases sh)
  obtain r c where sd: "shape d = (r, c)" by (cases "shape d")
  have r: "r = length (vals d)" using sd by (simp add: shape_def)
  have le: "r \<le> R" "c \<le> C" using assms sh sd by simp_all
  have rows: "\<And>i. i < r \<Longrightarrow> length (vals d ! i) = c"
    using rect_row_length[OF assms(1)] r sd by simp
  have shf: "shape (np_full (R, C) (minimum_value d) (dtype d)) = (R, if R = 0 then 0 else C)"
    by (cases R) (simp_all add: shape_def np_full_def)
  let ?new = "map2 (\<lambda>s t. s @ drop c t) (vals d)
                (take r (replicate R (replicate C (minimum_value d))))
              @ drop r (replicate R (replicate C (minimum_value d)))"
  have len: "length ?new = R" using le r by simp
  have eq: "?new = vals (padded_canvas (R, C) d)"
  proof (rule nth_equalityI)
    show "length ?new = length (vals (padded_canvas (R, C) d))"
      using len by (simp add: padded_canvas_def)
  next
    fix i assume "i < length ?new"
    then have iR: "i < R" using len by simp
    show "?new ! i = vals (padded_canvas (R, C) d) ! i"
    proof (cases "i < r")
      case True
      then have "?new ! i = vals d ! i @ replicate (C - c) (minimum_value d)"
        using le r iR by (simp add: nth_append)
      also have "\<dots> = map (\<lambda>j. if j < c then vals d ! i ! j else minimum_value d) [0..<C]"
        using rows[OF True] le
        by (intro nth_equalityI) (auto simp: nth_append)
      finally show ?thesis using True iR sd by (simp add: padded_canvas_def)
    next
      case False
      then have "?new ! i = replicate C (minimum_value d)"
        using le r iR by (simp add: nth_append)
      also have "\<dots> = map (\<lambda>j. minimum_value d) [0..<C]"
        by (intro nth_equalityI) auto
      finally show ?thesis using False iR sd by (simp add: padded_canvas_def)
    qed
  qed
  have cond: "r \<le> R \<and> c \<le> (if R = 0 then 0 else C)"
    using le r assms sd sh by (auto simp: shape_def split: list.splits)
  show ?thesis
    unfolding set_topleft_def sh sd shf using cond eq
    by (simp add: np_full_def padded_canvas_def)
qed


lemma map_results_map:
  "(\<And>x. x \<in> set xs \<Longrightarrow> f x = Inr (g x)) \<Longrightarrow> map_results f xs = Inr (map g xs)"
  by (induction xs) simp_all

lemma proper_data_nonempty: "proper_data d \<Longrightarrow> concat (vals d) \<noteq> []"
  by (cases "vals d") (auto simp: proper_data_def shape_def)

lemma proper_data_astype: "proper_data d \<Longrightarrow> proper_data (astype_float64 d)"
  by (simp add: proper_data_def astype_float64_def shape_def rect_def)

lemma common_dtype_stored: "proper_data d \<Longrightarrow> common_dtype d = Inr d"
  by (auto simp: proper_data_def common_dtype_def img_as_uint_def)

lemma padded_canvas_dtype: "dtype (padded_canvas sh d) = dtype d"
  by (simp add: padded_canvas_def)

lemma read_as_fields:
  "read_as mo cs rs img \<Longrightarrow> modality img = mo \<and> cols img = Inr cs \<and> rows img = Inr rs"
  by (cases img) simp_all

text \<open>The data the loop body stores, in the specification's words.\<close>

lemma rebuild_result:
  assumes "read_as mo cs rs img" and "proper_data (data img)"
    and "fst (img_shape img) \<le> fst sh" and "snd (img_shape img) \<le> snd sh"
  shows "rebuild ht hs sh img =
     Inr (ModuleImage
           (if hs then (if ht then data img else astype_float64 (data img))
            else padded_canvas sh (if ht then data img else astype_float64 (data img)))
           mo (path_of img) cs rs None)"
proof -
  let ?d1 = "if ht then data img else astype_float64 (data img)"
  have p1: "proper_data ?d1" using assms(2) by (simp add: proper_data_astype)
  have sh1: "shape ?d1 = img_shape img"
    by (simp add: img_shape_def astype_float64_def shape_def)
  have mn: "np_min ?d1 = Inr (minimum_value ?d1)"
    using proper_data_nonempty[OF p1] by (rule np_min_minimum)
  have pad: "set_topleft (np_full sh (minimum_value ?d1) (dtype ?d1)) ?d1 =
      Inr (padded_canvas sh ?d1)"
    using p1 assms(3,4) sh1 by (intro set_topleft_full) (simp_all add: proper_data_def)
  have st: "common_dtype (padded_canvas sh ?d1) = Inr (padded_canvas sh ?d1)"
    using p1 by (auto simp: common_dtype_def img_as_uint_def padded_canvas_dtype proper_data_def)
  have st1: "common_dtype ?d1 = Inr ?d1" using p1 by (rule common_dtype_stored)
  show ?thesis
    using mn pad st st1 read_as_fields[OF assms(1)]
    by (cases ht; cases hs) (simp_all add: rebuild_def ModuleImage_init_def)
qed


lemma resolve_result:
  assumes "imgs = i0 # rest"
    and "list_all (read_as mo cs rs) imgs"
    and "list_all (\<lambda>img. proper_data (data img)) imgs"
    and "ht = list_all (\<lambda>img. img_dtype img = img_dtype i0) imgs"
    and "hs = list_all (\<lambda>img. img_shape img = img_shape i0) imgs"
    and "\<not> ht \<or> \<not> hs"
  shows "resolve imgs =
     Inr (map (\<lambda>img. ModuleImage
                 (if hs then (if ht then data img else astype_float64 (data img))
                  else padded_canvas (bounding_shape (map img_shape imgs))
                         (if ht then data img else astype_float64 (data img)))
                 mo (path_of img) cs rs None) imgs)"
proof -
  let ?B = "bounding_shape (map img_shape imgs)"
  have mx: "np_max_axis0 (map img_shape imgs) = Inr ?B"
    using assms(1) by (intro np_max_axis0_bounding) simp
  have hs': "(case map img_shape imgs of [] \<Rightarrow> True
              | s0 # _ \<Rightarrow> list_all (\<lambda>s. s = s0) (map img_shape imgs)) = hs"
    using assms(1,5) by (simp add: list_all_iff)
  have ht': "(case imgs of [] \<Rightarrow> True
              | j0 # _ \<Rightarrow> list_all (\<lambda>img. img_dtype img = img_dtype j0) imgs) = ht"
    using assms(1,4) by simp
  have each: "\<And>img. img \<in> set imgs \<Longrightarrow> rebuild ht hs ?B img =
     Inr (ModuleImage
           (if hs then (if ht then data img else astype_float64 (data img))
            else padded_canvas ?B (if ht then data img else astype_float64 (data img)))
           mo (path_of img) cs rs None)"
  proof -
    fix img assume m: "img \<in> set imgs"
    have a: "read_as mo cs rs img" using assms(2) m by (simp add: list_all_iff)
    have b: "proper_data (data img)" using assms(3) m by (simp add: list_all_iff)
    have c: "img_shape img \<in> set (map img_shape imgs)" using m by simp
    show "rebuild ht hs ?B img =
     Inr (ModuleImage
           (if hs then (if ht then data img else astype_float64 (data img))
            else padded_canvas ?B (if ht then data img else astype_float64 (data img)))
           mo (path_of img) cs rs None)"
      using a b bounding_shape_upper[OF c] by (rule rebuild_result)
  qed
  have "resolve imgs = map_results (rebuild ht hs ?B) imgs"
    unfolding resolve_def Let_def hs' ht' mx using assms(6) by simp
  also have "\<dots> = Inr (map (\<lambda>img. ModuleImage
                 (if hs then (if ht then data img else astype_float64 (data img))
                  else padded_canvas ?B (if ht then data img else astype_float64 (data img)))
                 mo (path_of img) cs rs None) imgs)"
    using each by (rule map_results_map)
  finally show ?thesis .
qed

lemma check_geometry_read_as:
  "list_all (read_as mo cs rs) imgs \<Longrightarrow> check_geometry cs rs imgs = Inr ()"
  by (induction imgs) (auto dest: read_as_fields)

lemma ModuleImageSequence_init_read_as:
  assumes "imgs = i0 # rest"
    and "list_all (read_as mo cs rs) imgs"
    and "allow \<or> list_all (\<lambda>img. img_dtype img = img_dtype i0) imgs"
  shows "ModuleImageSequence_init imgs False allow =
     Inr \<lparr>seq_class = ModuleImageSequenceC, images = imgs, same_camera = False,
          allow_different_dtypes = allow\<rparr>"
proof -
  have f0: "cols i0 = Inr cs" "rows i0 = Inr rs" "modality i0 = mo"
    using assms(1,2) by (auto dest: read_as_fields)
  have mods: "list_all (\<lambda>img. modality img = mo) imgs"
    using assms(2) by (auto simp: list_all_iff dest: read_as_fields)
  have ci: "check_images (img_dtype i0) (img_shape i0) mo False allow imgs = Inr ()"
    using check_images_no_camera[OF mods, of "img_dtype i0" "img_shape i0" allow] assms(3)
    by auto
  have cg: "check_geometry cs rs imgs = Inr ()"
    using assms(2) by (rule check_geometry_read_as)
  have "ModuleImageSequence_init (i0 # rest) False allow =
     Inr \<lparr>seq_class = ModuleImageSequenceC, images = i0 # rest, same_camera = False,
          allow_different_dtypes = allow\<rparr>"
    unfolding ModuleImageSequence_init_def base_init_def
    using f0 ci cg assms(1) by (simp del: check_images.simps check_geometry.simps)
  then show ?thesis using assms(1) by simp
qed



text \<open>
  The reading loop builds images that meet \<open>read_as\<close>, with one of the three stored
  element types.
\<close>

lemma priv_read_module_image_read_as:
  assumes "priv_read_module_image fl mo ip cs rs = Inr img"
  shows "read_as mo cs rs img \<and> path_of img = fst fl
       \<and> (img_dtype img = UInt16 \<or> img_dtype img = Float32 \<or> img_dtype img = Float64)"
proof -
  obtain p d where f: "fl = (p, d)" by (cases fl)
  from common_dtype_total[of d] obtain d' where
    c: "common_dtype d = Inr d'" and t: "dtype d' \<in> {UInt16, Float32, Float64}" by blast
  show ?thesis
    using assms c t unfolding f
    by (cases ip)
       (auto simp: priv_read_module_image_def ModuleImage_init_def
          PartialModuleImage_init_def img_dtype_def)
qed

lemma reading_loop_read_as:
  assumes "map_results (\<lambda>fn. priv_read_module_image fn mo ip cs rs) files = Inr imgs"
  shows "list_all (read_as mo cs rs) imgs"
  using assms
  by (auto simp: map_results_Inr_iff list_all_length dest: priv_read_module_image_read_as)

text \<open>
  The final constructor call of \<^verbatim>\<open>_read_module_images\<close> passes the keyword \<^verbatim>\<open>copy\<close>,
  which \<^verbatim>\<open>ModuleImageSequence.__init__\<close> does not have: the reader raises on every input.
\<close>

lemma kwargs_copy:
  "ModuleImageSequence_kwargs imgs
     [(''copy'', False), (''same_camera'', sc), (''allow_different_dtypes'', allow)] =
   Inl (TypeError ''__init__() got an unexpected keyword argument copy'')"
  by (simp add: ModuleImageSequence_kwargs_def)

lemma priv_read_module_images_raises:
  "\<exists>e. priv_read_module_images files mo sc ip cs rs N allow = Inl e"
  by (simp add: priv_read_module_images_def kwargs_copy Let_def split: sum.splits)

text \<open>
  The resolution step alone. For images as the reading loop builds them, of one dtype and
  not all of one shape, the resolution step of a read with \<^verbatim>\<open>same_camera=False\<close>
  succeeds and rebuilds every image as a \<^verbatim>\<open>ModuleImage\<close> whose data is the canvas of the
  bounding shape filled with that image's own minimum, the original data at the top-left
  origin. The \<^verbatim>\<open>ModuleImageSequence\<close> built from the rebuilt images with
  \<^verbatim>\<open>same_camera=False\<close> has shape None; its dtype is the common dtype when
  \<^verbatim>\<open>allow_different_dtypes\<close> is false and None when it is true.
\<close>

theorem resolve_pads_to_bounding_shape:
  assumes "imgs = i0 # rest"
    and "list_all (read_as mo cs rs) imgs"
    and "list_all (\<lambda>img. proper_data (data img)) imgs"
    and "list_all (\<lambda>img. img_dtype img = img_dtype i0) imgs"
    and "\<not> list_all (\<lambda>img. img_shape img = img_shape i0) imgs"
    and "out = map (\<lambda>img. ModuleImage
                   (padded_canvas (bounding_shape (map img_shape imgs)) (data img))
                   mo (path_of img) cs rs None) imgs"
    and "s = \<lparr>seq_class = ModuleImageSequenceC, images = out, same_camera = False,
              allow_different_dtypes = allow\<rparr>"
  shows "resolve imgs = Inr out \<and> ModuleImageSequence_init out False allow = Inr s
       \<and> seq_shape s = Inr None
       \<and> seq_dtype s = Inr (if allow then None else Some (img_dtype i0))"
proof -
  let ?g = "\<lambda>img. ModuleImage
                   (padded_canvas (bounding_shape (map img_shape imgs)) (data img))
                   mo (path_of img) cs rs None"
  have r: "resolve imgs = Inr out"
    using resolve_result[OF assms(1,2,3), of True False] assms(4,5,6) by simp
  have o: "out = ?g i0 # map ?g rest" using assms(1,6) by simp
  have ra: "list_all (read_as mo cs rs) out"
    unfolding assms(6) by (simp add: list_all_iff)
  have dt: "list_all (\<lambda>img. img_dtype img = img_dtype (?g i0)) out"
    using assms(4) unfolding assms(6)
    by (simp add: list_all_iff img_dtype_def padded_canvas_dtype assms(1))
  have c: "ModuleImageSequence_init out False allow = Inr s"
    unfolding assms(7) by (rule ModuleImageSequence_init_read_as[OF o ra disjI2[OF dt]])
  have d: "seq_dtype s = Inr (if allow then None else Some (img_dtype i0))"
    unfolding assms(7) by (simp add: seq_dtype_def o img_dtype_def padded_canvas_dtype)
  have e: "seq_shape s = Inr None" unfolding assms(7) by (simp add: seq_shape_def)
  from r c d e show ?thesis by simp
qed

text \<open>
  The resolution step alone. For images as the reading loop builds them, not all of one
  dtype, the resolution step of a read with \<^verbatim>\<open>same_camera=False\<close> succeeds and rebuilds
  every image with float64 data. The \<^verbatim>\<open>ModuleImageSequence\<close> built from the rebuilt
  images has dtype None when \<^verbatim>\<open>allow_different_dtypes\<close> is true and float64 when it is
  false, which is the default.
\<close>

theorem resolve_casts_to_float64:
  assumes "imgs = i0 # rest"
    and "list_all (read_as mo cs rs) imgs"
    and "list_all (\<lambda>img. proper_data (data img)) imgs"
    and "\<not> list_all (\<lambda>img. img_dtype img = img_dtype i0) imgs"
  shows "\<exists>out. resolve imgs = Inr out \<and> length out = length imgs
           \<and> list_all (\<lambda>img. img_dtype img = Float64) out
           \<and> ModuleImageSequence_init out False allow =
               Inr \<lparr>seq_class = ModuleImageSequenceC, images = out, same_camera = False,
                    allow_different_dtypes = allow\<rparr>
           \<and> seq_dtype \<lparr>seq_class = ModuleImageSequenceC, images = out, same_camera = False,
                    allow_different_dtypes = allow\<rparr> =
               Inr (if allow then None else Some Float64)"
proof -
  let ?hs = "list_all (\<lambda>img. img_shape img = img_shape i0) imgs"
  let ?g = "\<lambda>img. ModuleImage
                 (if ?hs then astype_float64 (data img)
                  else padded_canvas (bounding_shape (map img_shape imgs))
                         (astype_float64 (data img)))
                 mo (path_of img) cs rs None"
  let ?out = "map ?g imgs"
  have r: "resolve imgs = Inr ?out"
    using resolve_result[OF assms(1,2,3), of False ?hs] assms(4) by simp
  have f: "\<And>img. img_dtype (?g img) = Float64"
    by (simp add: img_dtype_def padded_canvas_dtype astype_float64_def)
  have o: "?out = ?g i0 # map ?g rest" using assms(1) by simp
  have ra: "list_all (read_as mo cs rs) ?out" by (simp add: list_all_iff)
  have dt: "list_all (\<lambda>img. img_dtype img = Float64) ?out"
    using f by (simp add: list_all_iff)
  have dt0: "list_all (\<lambda>img. img_dtype img = img_dtype (?g i0)) ?out"
    using f by (simp add: list_all_iff)
  have c: "ModuleImageSequence_init ?out False allow =
      Inr \<lparr>seq_class = ModuleImageSequenceC, images = ?out, same_camera = False,
           allow_different_dtypes = allow\<rparr>"
    by (rule ModuleImageSequence_init_read_as[OF o ra disjI2[OF dt0]])
  have d: "seq_dtype \<lparr>seq_class = ModuleImageSequenceC, images = ?out, same_camera = False,
                    allow_different_dtypes = allow\<rparr> = Inr (if allow then None else Some Float64)"
    using f[of i0] by (simp add: seq_dtype_def o)
  from r dt c d show ?thesis by (intro exI[of _ ?out]) simp
qed


theorem resolve_pads_to_bounding_shape_witness:
  "resolve ex_imgs_shapes = Inr ex_padded
   \<and> ModuleImageSequence_init ex_padded False False =
       Inr \<lparr>seq_class = ModuleImageSequenceC, images = ex_padded, same_camera = False,
            allow_different_dtypes = False\<rparr>
   \<and> seq_shape \<lparr>seq_class = ModuleImageSequenceC, images = ex_padded, same_camera = False,
            allow_different_dtypes = False\<rparr> = Inr None
   \<and> seq_dtype \<lparr>seq_class = ModuleImageSequenceC, images = ex_padded, same_camera = False,
            allow_different_dtypes = False\<rparr> = Inr (Some UInt16)"
proof -
  have h1: "ex_imgs_shapes = ex_mk \<lparr>dtype = UInt16, vals = [[5]]\<rparr> ''a.png'' #
      [ex_mk \<lparr>dtype = UInt16, vals = [[3, 4]]\<rparr> ''b.png'',
       ex_mk \<lparr>dtype = UInt16, vals = [[7], [6]]\<rparr> ''c.png'']"
    by (simp add: ex_imgs_shapes_def ex_files_shapes_def)
  have h2: "list_all (read_as (Some 0) (Some 2) (Some 1)) ex_imgs_shapes"
    by (simp add: h1 ex_mk_def)
  have h3: "list_all (\<lambda>img. proper_data (data img)) ex_imgs_shapes"
    by (simp add: h1 ex_mk_def proper_data_def rect_def shape_def)
  have h4: "list_all (\<lambda>img. img_dtype img =
      img_dtype (ex_mk \<lparr>dtype = UInt16, vals = [[5]]\<rparr> ''a.png'')) ex_imgs_shapes"
    by (simp add: h1 ex_mk_def img_dtype_def)
  have h5: "\<not> list_all (\<lambda>img. img_shape img =
      img_shape (ex_mk \<lparr>dtype = UInt16, vals = [[5]]\<rparr> ''a.png'')) ex_imgs_shapes"
    by (simp add: h1 ex_mk_def img_shape_def shape_def)
  have h6: "ex_padded = map (\<lambda>img. ModuleImage
      (padded_canvas (bounding_shape (map img_shape ex_imgs_shapes)) (data img))
      (Some 0) (path_of img) (Some 2) (Some 1) None) ex_imgs_shapes"
    by code_simp
  from resolve_pads_to_bounding_shape [OF h1 h2 h3 h4 h5 h6 refl, of False]
  show ?thesis by (simp add: img_dtype_def ex_mk_def)
qed

text \<open>The resolution step on three 16-bit images of shapes (1,1), (1,2) and (2,1).\<close>

lemma resolve_ex_imgs_shapes: "resolve ex_imgs_shapes = Inr ex_padded"
  by code_simp

text \<open>
  C1. A bulk read with \<^verbatim>\<open>same_camera=False\<close> over images of one dtype and differing
  shapes is to return a sequence with shape None, the common dtype, and every image
  padded to the bounding shape. For three 16-bit files of shapes (1,1), (1,2) and (2,1),
  read with the default flags, the loop builds the three images, which the resolution
  pads to (2,2) as described (lemma above); the reader then calls the constructor with the keyword
  \<^verbatim>\<open>copy\<close> and ends with a TypeError, so no sequence is returned.
\<close>

theorem bulk_read_equal_dtype_raises:
  "map_results (\<lambda>fn. priv_read_module_image fn (Some 0) False (Some 2) (Some 1))
     ex_files_shapes = Inr ex_imgs_shapes
   \<and> priv_read_module_images ex_files_shapes (Some 0) False False (Some 2) (Some 1) 0 False =
       Inl (TypeError ''__init__() got an unexpected keyword argument copy'')"
  by code_simp

theorem resolve_casts_to_float64_witness:
  "\<exists>out. resolve ex_imgs_mixed = Inr out \<and> length out = length ex_imgs_mixed
      \<and> list_all (\<lambda>img. img_dtype img = Float64) out
      \<and> ModuleImageSequence_init out False True =
          Inr \<lparr>seq_class = ModuleImageSequenceC, images = out, same_camera = False,
               allow_different_dtypes = True\<rparr>
      \<and> seq_dtype \<lparr>seq_class = ModuleImageSequenceC, images = out, same_camera = False,
               allow_different_dtypes = True\<rparr> = Inr None"
proof -
  have h1: "ex_imgs_mixed = ex_mk \<lparr>dtype = UInt16, vals = [[5]]\<rparr> ''a.png'' #
      [ex_mk \<lparr>dtype = Float32, vals = [[1 / 2, 1 / 4]]\<rparr> ''b.png'']"
    by (simp add: ex_imgs_mixed_def)
  have h2: "list_all (read_as (Some 0) (Some 2) (Some 1)) ex_imgs_mixed"
    by (simp add: h1 ex_mk_def)
  have h3: "list_all (\<lambda>img. proper_data (data img)) ex_imgs_mixed"
    by (simp add: h1 ex_mk_def proper_data_def rect_def shape_def)
  have h4: "\<not> list_all (\<lambda>img. img_dtype img =
      img_dtype (ex_mk \<lparr>dtype = UInt16, vals = [[5]]\<rparr> ''a.png'')) ex_imgs_mixed"
    by (simp add: h1 ex_mk_def img_dtype_def)
  from resolve_casts_to_float64 [OF h1 h2 h3 h4, of True]
  show ?thesis by simp
qed

text \<open>The resolution step on a 16-bit and a float64 image of one shape.\<close>

lemma resolve_ex_imgs_dtypes: "resolve ex_imgs_dtypes = Inr ex_cast"
  by code_simp

text \<open>
  C2. A bulk read with \<^verbatim>\<open>same_camera=False\<close> over images of differing dtypes is to
  return a sequence whose dtype is None and whose images all hold float64 data. For a
  16-bit and a float64 file the loop builds the two images, which the resolution casts
  to float64 (lemma above); the reader then calls the constructor with the keyword \<^verbatim>\<open>copy\<close> and ends
  with a TypeError, with \<^verbatim>\<open>allow_different_dtypes\<close> set as with the default, so no
  sequence is returned.
\<close>

theorem bulk_read_mixed_dtype_raises:
  "map_results (\<lambda>fn. priv_read_module_image fn (Some 0) False (Some 2) (Some 1))
     ex_files_dtypes = Inr ex_imgs_dtypes
   \<and> priv_read_module_images ex_files_dtypes (Some 0) False False (Some 2) (Some 1) 0 True =
       Inl (TypeError ''__init__() got an unexpected keyword argument copy'')
   \<and> priv_read_module_images ex_files_dtypes (Some 0) False False (Some 2) (Some 1) 0 False =
       Inl (TypeError ''__init__() got an unexpected keyword argument copy'')"
  by code_simp

text \<open>The shapes of the specification's example are bounded by (12, 12).\<close>

lemma bounding_shape_example: "bounding_shape [(10, 10), (10, 12), (12, 10)] = (12, 12)"
  by code_simp

end
